theory Spec2Isabelle
  imports Complex_Main
begin

section \<open>Values of the CKD prediction backend\<close>

text \<open>
  JavaScript numbers are modelled as \<^typ>\<open>real\<close>: the finite doubles, without \<open>NaN\<close>,
  which JSON cannot carry. Where a property below gives concrete values, the numbers are
  small integers (exact as doubles) and a few decimal constants that are far apart, so the
  comparisons of the doubles and of the reals agree.

  The feature record: the eight clinical measurements that \<open>generateMockPrediction\<close>
  reads. They are \<open>Number\<close> fields of the \<open>PatientRecord\<close> schema; \<open>None\<close> is a field
  that is absent (or \<open>null\<close>). The remaining fields of the request body are only forwarded.
\<close>

record patientData =
  age :: "real option"
  bp :: "real option"
  sc :: "real option"
  bu :: "real option"
  bgr :: "real option"
  sg :: "real option"
  al :: "real option"
  su :: "real option"

text \<open>
  The body of a remote service's answer, \<open>response.data\<close>: a JSON object with the optional
  fields \<open>prediction\<close>, \<open>probability\<close> and \<open>confidence\<close>.
\<close>

record payload =
  prediction :: "string option"
  probability :: "real option"
  confidence :: "real option"

text \<open>
  \<open>x || d\<close> on a string and on a number: \<open>undefined\<close>, \<open>null\<close>, the empty string and
  \<open>0\<close> are falsy and give the default.
\<close>

definition or_str :: "string option \<Rightarrow> string \<Rightarrow> string" where
  "or_str x d = (case x of None \<Rightarrow> d | Some s \<Rightarrow> if s = [] then d else s)"

definition or_num :: "real option \<Rightarrow> real \<Rightarrow> real" where
  "or_num x d = (case x of None \<Rightarrow> d | Some v \<Rightarrow> if v = 0 then d else v)"

text \<open>
  \<open>confidence\<close> is a number when it comes from a remote service and the string
  \<open>n.toFixed(1)\<close> when it is computed locally; a string made by \<open>toFixed\<close> is never empty,
  so it is truthy even for \<open>n = 0\<close>.
\<close>

datatype confidence_value = ConfNumber real | ConfFixed1 real

fun conf_truthy :: "confidence_value \<Rightarrow> bool" where
  "conf_truthy (ConfNumber v) = (v \<noteq> 0)"
| "conf_truthy (ConfFixed1 v) = True"

record predictionResult =
  pr_prediction :: string
  pr_probability :: real
  pr_confidence :: confidence_value

section \<open>The local risk estimator: \<open>generateMockPrediction\<close>\<close>

text \<open>
  The accumulator \<open>riskScore\<close> after the eight threshold rules, before \<open>Math.min\<close>.
  The \<open>if\<close> statements of the source run in this order, each adding its weight.
\<close>

definition rawRiskScore :: "patientData \<Rightarrow> real" where
  "rawRiskScore pd =
     (let age' = or_num (age pd) 50;
          bp' = or_num (bp pd) 120;
          sc' = or_num (sc pd) 1.0;
          bu' = or_num (bu pd) 30;
          bgr' = or_num (bgr pd) 100;
          sg' = or_num (sg pd) 1.020;
          al' = or_num (al pd) 0;
          su' = or_num (su pd) 0
      in (if age' > 60 then 15 else 0)
       + (if bp' > 140 then 10 else 0)
       + (if sc' > 1.3 then 25 else 0)
       + (if bu' > 40 then 15 else 0)
       + (if bgr' > 126 then 10 else 0)
       + (if sg' < 1.010 then 10 else 0)
       + (if al' > 2 then 10 else 0)
       + (if su' > 1 then 5 else 0))"

text \<open>\<open>riskScore = Math.min(riskScore, 95)\<close>\<close>

definition cappedRiskScore :: "patientData \<Rightarrow> real" where
  "cappedRiskScore pd = min (rawRiskScore pd) 95"

text \<open>\<open>modelAdjustments[model] || 0\<close>\<close>

definition modelAdjustments :: "(string \<times> real) list" where
  "modelAdjustments =
     [(''xgboost'', 0.02), (''randomforest'', 0.01), (''neuralnetwork'', 0.015),
      (''svm'', 0.0), (''logistic'', -0.01)]"

definition modelAdjustment :: "string \<Rightarrow> real" where
  "modelAdjustment m = or_num (map_of modelAdjustments m) 0"

definition mockProbability :: "patientData \<Rightarrow> string \<Rightarrow> real" where
  "mockProbability pd m = cappedRiskScore pd / 100 + modelAdjustment m"

definition finalProbability :: "patientData \<Rightarrow> string \<Rightarrow> real" where
  "finalProbability pd m = max 0.05 (min 0.95 (mockProbability pd m))"

definition generateMockPrediction :: "patientData \<Rightarrow> string \<Rightarrow> predictionResult" where
  "generateMockPrediction pd m =
     (let hasCKD = finalProbability pd m > 0.5
      in \<lparr> pr_prediction = (if hasCKD then ''CKD'' else ''No CKD''),
           pr_probability = finalProbability pd m,
           pr_confidence = ConfFixed1 (finalProbability pd m * 100) \<rparr>)"

text \<open>The two feature records of the specification's examples.\<close>

definition highRiskRecord :: patientData where
  "highRiskRecord =
     \<lparr> age = Some 70, bp = Some 150, sc = Some 1.5, bu = Some 50, bgr = Some 130,
       sg = Some 1.005, al = Some 3, su = Some 2 \<rparr>"

definition neutralRecord :: patientData where
  "neutralRecord =
     \<lparr> age = Some 50, bp = Some 120, sc = Some 1.0, bu = Some 30, bgr = Some 100,
       sg = None, al = None, su = None \<rparr>"

section \<open>Strings\<close>

text \<open>
  \<open>String.prototype.toUpperCase\<close> and \<open>toLowerCase\<close> on ASCII letters, which is what the
  model identifiers of the registry are made of: a letter changes case by its bit of value 32,
  every other character is kept.
\<close>

fun upperChar :: "char \<Rightarrow> char" where
  "upperChar (Char b0 b1 b2 b3 b4 b5 b6 b7) =
     (let n = (of_char (Char b0 b1 b2 b3 b4 b5 b6 b7) :: nat)
      in if 97 \<le> n \<and> n \<le> 122 then Char b0 b1 b2 b3 b4 False b6 b7
         else Char b0 b1 b2 b3 b4 b5 b6 b7)"

fun lowerChar :: "char \<Rightarrow> char" where
  "lowerChar (Char b0 b1 b2 b3 b4 b5 b6 b7) =
     (let n = (of_char (Char b0 b1 b2 b3 b4 b5 b6 b7) :: nat)
      in if 65 \<le> n \<and> n \<le> 90 then Char b0 b1 b2 b3 b4 True b6 b7
         else Char b0 b1 b2 b3 b4 b5 b6 b7)"

definition toUpperCase :: "string \<Rightarrow> string" where
  "toUpperCase s = map upperChar s"

definition toLowerCase :: "string \<Rightarrow> string" where
  "toLowerCase s = map lowerChar s"

text \<open>\<open>name.charAt(0).toUpperCase() + name.slice(1)\<close>\<close>

definition capitalize :: "string \<Rightarrow> string" where
  "capitalize name = toUpperCase (take 1 name) @ drop 1 name"

text \<open>\<open>Array.prototype.join\<close>\<close>

fun join :: "string \<Rightarrow> string list \<Rightarrow> string" where
  "join sep [] = []"
| "join sep [x] = x"
| "join sep (x # y # ys) = x @ sep @ join sep (y # ys)"

section \<open>The remote-call seam: \<open>axios.post\<close>\<close>

text \<open>
  A call either rejects (time-out, transport error, status outside 2xx) or fulfils with a
  response whose \<open>data\<close> is the parsed body; \<open>None\<close> is a body that is \<open>null\<close> or
  \<open>undefined\<close>, on which reading a property throws a \<open>TypeError\<close>.
\<close>

datatype failure = Timeout | Transport | BadStatus nat

datatype axios_result = Rejected failure | Fulfilled "payload option"

datatype js_error = AxiosError failure | TypeError | Error string | SaveError

text \<open>
  The network is an oracle: the outcome of the \<open>n\<close>-th call a request issues (counted from
  0 in the order of issue), given the URL and the body posted. Nothing is assumed about it.
\<close>

type_synonym network = "nat \<Rightarrow> string option \<Rightarrow> patientData \<Rightarrow> axios_result"

text \<open>
  What a handler passed to \<open>axios.post\<close>: the URL it looked up (\<open>None\<close> when the lookup gave
  \<open>undefined\<close>) and the \<open>timeout\<close> of the config argument (\<open>None\<close> when no config was
  passed). \<open>a_model\<close> records for which model the call was made.
\<close>

record attempt =
  a_model :: string
  a_url :: "string option"
  a_timeout :: "nat option"

text \<open>
  The body of a \<open>try\<close> block that awaits the call and then reads the fields of
  \<open>response.data\<close>: it throws when the call rejects and when \<open>data\<close> has no properties.
\<close>

fun try_read :: "axios_result \<Rightarrow> js_error + payload" where
  "try_read (Rejected f) = Inl (AxiosError f)"
| "try_read (Fulfilled None) = Inl TypeError"
| "try_read (Fulfilled (Some d)) = Inr d"

text \<open>The same under a \<open>catch\<close> that does not look at the error.\<close>

definition usable :: "axios_result \<Rightarrow> payload option" where
  "usable r = (case try_read r of Inl e \<Rightarrow> None | Inr d \<Rightarrow> Some d)"

section \<open>The service: \<open>mlComparisonService.js\<close>\<close>

text \<open>
  The module's three tables. An object is an association list in the order of
  \<open>Object.keys\<close>, holding each key once.
\<close>

record registry =
  ML_MODELS :: "(string \<times> string) list"
  bestModel :: string
  modelPerformance :: "(string \<times> real) list"

definition serviceRegistry :: registry where
  "serviceRegistry =
     \<lparr> ML_MODELS =
         [(''logistic'', ''https://logistic-service-djty.onrender.com/predict''),
          (''randomforest'', ''https://randomforest-service.onrender.com/predict''),
          (''xgboost'', ''https://xgboost-service-ddal.onrender.com/predict''),
          (''svm'', ''https://svm-service.onrender.com/predict''),
          (''neuralnetwork'', ''https://neuralnetwork-service.onrender.com/predict'')],
       bestModel = ''xgboost'',
       modelPerformance =
         [(''xgboost'', 0.99), (''randomforest'', 0.98), (''logistic'', 0.95),
          (''svm'', 0.94), (''neuralnetwork'', 0.96)] \<rparr>"

record modelOutcome =
  mo_model :: string
  mo_prediction :: string
  mo_probability :: real
  mo_confidence :: real
  mo_modelAccuracy :: "real option"
  mo_fallback :: bool

text \<open>The object both \<open>return\<close> statements of \<open>getBestModelPrediction\<close> build.\<close>

definition outcomeOf :: "registry \<Rightarrow> string \<Rightarrow> payload \<Rightarrow> bool \<Rightarrow> modelOutcome" where
  "outcomeOf reg m d fb =
     \<lparr> mo_model = toUpperCase m,
       mo_prediction = or_str (prediction d) ''Unknown'',
       mo_probability = or_num (probability d) 0,
       mo_confidence = or_num (confidence d) 0,
       mo_modelAccuracy = map_of (modelPerformance reg) m,
       mo_fallback = fb \<rparr>"

text \<open>
  \<open>Object.keys(modelPerformance).sort((a, b) => modelPerformance[b] - modelPerformance[a])\<close>:
  a stable sort, by descending score.
\<close>

definition fallbackModels :: "registry \<Rightarrow> string list" where
  "fallbackModels reg = map fst (sort_key (\<lambda>(m, acc). - acc) (modelPerformance reg))"

definition serviceAttempt :: "registry \<Rightarrow> string \<Rightarrow> attempt" where
  "serviceAttempt reg m =
     \<lparr> a_model = m, a_url = map_of (ML_MODELS reg) m, a_timeout = None \<rparr>"

text \<open>
  The \<open>for\<close> loop of the \<open>catch\<close> block, with the \<open>throw\<close> after it; \<open>n\<close> counts the calls
  issued so far. The result comes with the calls issued, in order.
\<close>

fun cascade ::
  "registry \<Rightarrow> network \<Rightarrow> patientData \<Rightarrow> nat \<Rightarrow> string list
     \<Rightarrow> attempt list \<times> (js_error + modelOutcome)" where
  "cascade reg net pd n [] = ([], Inl (Error ''All model services unavailable''))"
| "cascade reg net pd n (m # ms) =
     (if m = bestModel reg then cascade reg net pd n ms
      else
        (case usable (net n (a_url (serviceAttempt reg m)) pd) of
           Some d \<Rightarrow> ([serviceAttempt reg m], Inr (outcomeOf reg m d True))
         | None \<Rightarrow>
             (case cascade reg net pd (Suc n) ms of
                (cs, r) \<Rightarrow> (serviceAttempt reg m # cs, r))))"

definition getBestModelPrediction ::
  "registry \<Rightarrow> network \<Rightarrow> patientData \<Rightarrow> attempt list \<times> (js_error + modelOutcome)" where
  "getBestModelPrediction reg net pd =
     (let b = bestModel reg
      in case usable (net 0 (a_url (serviceAttempt reg b)) pd) of
           Some d \<Rightarrow> ([serviceAttempt reg b], Inr (outcomeOf reg b d False))
         | None \<Rightarrow>
             (case cascade reg net pd 1 (fallbackModels reg) of
                (cs, r) \<Rightarrow> (serviceAttempt reg b # cs, r)))"

text \<open>An entry of the comparison report: the object of the \<open>try\<close> or of the \<open>catch\<close>.\<close>

datatype comparisonEntry =
    Success (ce_model: string) (ce_prediction: string) (ce_probability: real)
      (ce_accuracy: real)
  | Failed (ce_model: string) (ce_error: string) (ce_accuracy: real)

datatype 'a settled = PromiseFulfilled 'a | PromiseRejected js_error

text \<open>The \<open>async\<close> function mapped over \<open>Object.entries(ML_MODELS)\<close>; \<open>i\<close> is the position.\<close>

definition compareOne ::
  "registry \<Rightarrow> network \<Rightarrow> patientData \<Rightarrow> nat \<times> string \<times> string
     \<Rightarrow> comparisonEntry settled" where
  "compareOne reg net pd e =
     (case e of (i, name, url) \<Rightarrow>
        (case usable (net i (Some url) pd) of
           Some d \<Rightarrow>
             PromiseFulfilled
               (Success (capitalize name) (or_str (prediction d) ''Unknown'')
                  (or_num (probability d) 0) (or_num (map_of (modelPerformance reg) name) 0))
         | None \<Rightarrow>
             PromiseFulfilled
               (Failed (capitalize name) ''Service down''
                  (or_num (map_of (modelPerformance reg) name) 0))))"

text \<open>The \<open>forEach\<close> that keeps the values of the fulfilled promises.\<close>

fun fulfilledValues :: "'a settled list \<Rightarrow> 'a list" where
  "fulfilledValues [] = []"
| "fulfilledValues (PromiseFulfilled v # rs) = v # fulfilledValues rs"
| "fulfilledValues (PromiseRejected e # rs) = fulfilledValues rs"

text \<open>
  \<open>results.sort((a, b) => (b.accuracy || 0) - (a.accuracy || 0))\<close>: stable, by descending
  accuracy.
\<close>

definition compareAllModels ::
  "registry \<Rightarrow> network \<Rightarrow> patientData \<Rightarrow> comparisonEntry list" where
  "compareAllModels reg net pd =
     (let settledResults = map (compareOne reg net pd) (enumerate 0 (ML_MODELS reg));
          results = fulfilledValues settledResults
      in sort_key (\<lambda>e. - or_num (Some (ce_accuracy e)) 0) results)"

text \<open>Which kind of slot an entry is, and the score that ranks a model in the report.\<close>

fun failedEntry :: "comparisonEntry \<Rightarrow> bool" where
  "failedEntry (Failed m e a) = True"
| "failedEntry (Success m p q a) = False"

fun successEntry :: "comparisonEntry \<Rightarrow> bool" where
  "successEntry (Success m p q a) = True"
| "successEntry (Failed m e a) = False"

definition rankKey :: "registry \<Rightarrow> string \<Rightarrow> real" where
  "rankKey reg name = or_num (map_of (modelPerformance reg) name) 0"

section \<open>Persistence and HTTP responses\<close>

text \<open>
  The document handed to \<open>new PatientRecord(...)\<close>, and \<open>record.save()\<close> as an oracle:
  \<open>Some id\<close> when the write resolves (\<open>id\<close> is the record's \<open>_id\<close>), \<open>None\<close> when it rejects.
\<close>

record patientRecord =
  doc_features :: "patientData option"
  predictedBy :: string
  doc_prediction :: string
  doc_probability :: real
  accuracyOfModel :: real
  doc_riskScore :: "real option"

type_synonym database = "patientRecord \<Rightarrow> string option"

text \<open>
  The status and the JSON body of a response. \<open>accuracy\<close> is the number that the source
  formats with \<open>toFixed(1)\<close>; the constant \<open>suggestion\<close>, the echo \<open>received\<close>,
  \<open>model_display\<close> and \<open>timestamp\<close> are left out.
\<close>

record httpResponse =
  status :: nat
  success :: bool
  message :: "string option"
  risk_score :: "real option"
  result :: "string option"
  resp_confidence :: "confidence_value option"
  resp_model :: "string option"
  accuracy :: "real option"
  patientRecordId :: "string option"
  recommendation :: "string option"
  resp_error :: "js_error option"
  resp_note :: "string option"

definition emptyResponse :: "nat \<Rightarrow> bool \<Rightarrow> httpResponse" where
  "emptyResponse st ok =
     \<lparr> status = st, success = ok, message = None, risk_score = None, result = None,
       resp_confidence = None, resp_model = None, accuracy = None, patientRecordId = None,
       recommendation = None, resp_error = None, resp_note = None \<rparr>"

text \<open>
  \<open>if (map[model])\<close>: the URL when the key is there and the string is not empty. A lookup
  in an object literal is a lookup among its own keys; this is what the code does for the
  identifiers that pass the validation of the routes (names inherited from
  \<open>Object.prototype\<close> are not among them).
\<close>

definition truthyLookup :: "(string \<times> string) list \<Rightarrow> string \<Rightarrow> string option" where
  "truthyLookup m k =
     (case map_of m k of None \<Rightarrow> None | Some u \<Rightarrow> if u = [] then None else Some u)"

definition validModels :: "string list" where
  "validModels = [''xgboost'', ''randomforest'', ''svm'', ''logistic'', ''neuralnetwork'']"

definition modelServiceMap :: "(string \<times> string) list" where
  "modelServiceMap =
     [(''logistic'', ''https://logistic-service-djty.onrender.com/predict''),
      (''randomforest'', ''https://randomforest-service.onrender.com/predict''),
      (''xgboost'', ''https://xgboost-service-ddal.onrender.com/predict''),
      (''svm'', ''https://svm-service.onrender.com/predict''),
      (''neuralnetwork'', ''https://neuralnetwork-service.onrender.com/predict'')]"

text \<open>\<open>res.status(400).json(...)\<close> of the model validation.\<close>

definition invalidModel :: httpResponse where
  "invalidModel =
     (emptyResponse 400 False)
       \<lparr> message := Some (''Invalid model. Choose from: '' @ join '', '' validModels) \<rparr>"

section \<open>The route \<open>POST /:model/predict\<close> of \<open>server.js\<close>\<close>

definition serverModelPerformance :: "(string \<times> real) list" where
  "serverModelPerformance =
     [(''xgboost'', 0.99), (''randomforest'', 0.98), (''logistic'', 0.95),
      (''svm'', 0.94), (''neuralnetwork'', 0.96)]"

text \<open>The \<open>catch\<close> of the handler.\<close>

definition predictionFailed :: "js_error \<Rightarrow> httpResponse" where
  "predictionFailed e =
     (emptyResponse 500 False) \<lparr> message := Some ''Prediction failed'', resp_error := Some e \<rparr>"

text \<open>
  The handler from \<open>// Set model accuracy\<close> to \<open>res.json\<close>. It runs inside the handler's
  \<open>try\<close>, so a rejected \<open>record.save()\<close> ends in the \<open>catch\<close>.
\<close>

definition saveAndRespond ::
  "database \<Rightarrow> string \<Rightarrow> patientData \<Rightarrow> predictionResult \<Rightarrow> httpResponse" where
  "saveAndRespond db model pd res =
     (let modelAccuracy = or_num (map_of serverModelPerformance model) 0.90;
          doc = \<lparr> doc_features = Some pd, predictedBy = toUpperCase model,
                  doc_prediction = pr_prediction res, doc_probability = pr_probability res,
                  accuracyOfModel = modelAccuracy, doc_riskScore = None \<rparr>
      in case db doc of
           None \<Rightarrow> predictionFailed SaveError
         | Some rid \<Rightarrow>
             (let riskScore = pr_probability res * 100;
                  riskResult = (if pr_prediction res = ''CKD'' then ''HIGH RISK: CKD Detected''
                                else ''LOW RISK: No CKD'')
              in (emptyResponse 200 True)
                   \<lparr> risk_score := Some riskScore,
                     result := Some riskResult,
                     resp_confidence :=
                       Some (if conf_truthy (pr_confidence res) then pr_confidence res
                             else ConfFixed1 riskScore),
                     resp_model := Some model,
                     accuracy := Some (modelAccuracy * 100),
                     patientRecordId := Some rid,
                     recommendation :=
                       Some (if pr_prediction res = ''CKD''
                             then ''High risk detected. Consult nephrologist immediately.''
                             else ''Low risk. Continue annual checkups.'') \<rparr>))"

definition modelPredictRoute ::
  "network \<Rightarrow> database \<Rightarrow> string \<Rightarrow> patientData \<Rightarrow> attempt list \<times> httpResponse" where
  "modelPredictRoute net db model pd =
     (if model \<notin> set validModels then ([], invalidModel)
      else
        (case truthyLookup modelServiceMap model of
           Some url \<Rightarrow>
             (let c = \<lparr> a_model = model, a_url = Some url, a_timeout = None \<rparr>
              in case try_read (net 0 (Some url) pd) of
                   Inl e \<Rightarrow> ([c], predictionFailed e)
                 | Inr d \<Rightarrow>
                     ([c], saveAndRespond db model pd
                        \<lparr> pr_prediction = or_str (prediction d) ''Unknown'',
                          pr_probability = or_num (probability d) 0,
                          pr_confidence = ConfNumber (or_num (confidence d) 0) \<rparr>))
         | None \<Rightarrow>
             (case getBestModelPrediction serviceRegistry net pd of
                (cs, Inl e) \<Rightarrow> (cs, predictionFailed e)
              | (cs, Inr best) \<Rightarrow>
                  (cs, saveAndRespond db model pd
                     \<lparr> pr_prediction = mo_prediction best,
                       pr_probability = mo_probability best,
                       pr_confidence = ConfNumber (mo_probability best * 100) \<rparr>))))"

section \<open>The helper-based per-model routes (\<open>handleModelPrediction\<close>, \<open>sendPredictionResponse\<close>)\<close>

definition helperModelPerformance :: "(string \<times> real) list" where
  "helperModelPerformance =
     [(''xgboost'', 0.987), (''randomforest'', 0.962), (''neuralnetwork'', 0.958),
      (''svm'', 0.941), (''logistic'', 0.925)]"

text \<open>
  \<open>handleModelPrediction(model, patientData)\<close>: one call with \<open>{ timeout: 10000 }\<close>; its
  own \<open>catch\<close>, and a model without URL, go to the local estimator.
\<close>

definition handleModelPrediction ::
  "network \<Rightarrow> string \<Rightarrow> patientData
     \<Rightarrow> attempt list \<times> (predictionResult \<times> real \<times> string)" where
  "handleModelPrediction net model pd =
     (let modelAccuracy = or_num (map_of helperModelPerformance model) 0.90
      in case truthyLookup modelServiceMap model of
           Some url \<Rightarrow>
             (let c = \<lparr> a_model = model, a_url = Some url, a_timeout = Some 10000 \<rparr>
              in case usable (net 0 (Some url) pd) of
                   Some d \<Rightarrow>
                     ([c], \<lparr> pr_prediction = or_str (prediction d) ''Unknown'',
                              pr_probability = or_num (probability d) 0.5,
                              pr_confidence = ConfNumber (or_num (confidence d) 0) \<rparr>,
                           modelAccuracy, model)
                 | None \<Rightarrow> ([c], generateMockPrediction pd model, modelAccuracy, model))
         | None \<Rightarrow> ([], generateMockPrediction pd model, modelAccuracy, model))"

text \<open>
  \<open>sendPredictionResponse\<close>. The two \<open>res.json\<close> calls differ in \<open>patientRecordId\<close> and
  \<open>note\<close> only. \<open>fmt\<close> is the conversion of \<open>confidence\<close> to a string inside the template
  literal of \<open>resultMessage\<close>.
\<close>

definition sendPredictionResponse ::
  "(confidence_value \<Rightarrow> string) \<Rightarrow> database \<Rightarrow> predictionResult \<times> real \<times> string
     \<Rightarrow> httpResponse" where
  "sendPredictionResponse fmt db r =
     (case r of (res, modelAccuracy, model) \<Rightarrow>
        (let riskScore = pr_probability res * 100;
             hasCKD = pr_probability res > 0.5;
             riskLevel = (if hasCKD then ''HIGH RISK: CKD Detected'' else ''LOW RISK: No CKD'');
             conf = (if conf_truthy (pr_confidence res) then pr_confidence res
                     else ConfFixed1 riskScore);
             resultMessage = riskLevel @ [CHR 0x0A] @ ''Confidence: '' @ fmt conf @ ''%'';
             doc = \<lparr> doc_features = None, predictedBy = toUpperCase model,
                     doc_prediction = pr_prediction res, doc_probability = pr_probability res,
                     accuracyOfModel = modelAccuracy, doc_riskScore = Some riskScore \<rparr>;
             body = (emptyResponse 200 True)
                      \<lparr> risk_score := Some riskScore,
                        result := Some resultMessage,
                        resp_confidence := Some conf,
                        resp_model := Some model,
                        accuracy := Some (modelAccuracy * 100),
                        recommendation :=
                          Some (if hasCKD
                                then ''High risk detected. Consult nephrologist immediately.''
                                else ''Low risk. Continue annual checkups.'') \<rparr>
         in case db doc of
              Some rid \<Rightarrow> body \<lparr> patientRecordId := Some rid \<rparr>
            | None \<Rightarrow> body \<lparr> resp_note := Some ''Prediction saved locally only'' \<rparr>))"

text \<open>The generic route of that file: the identifier is lower-cased before it is checked.\<close>

definition genericModelRoute ::
  "(confidence_value \<Rightarrow> string) \<Rightarrow> network \<Rightarrow> database \<Rightarrow> string \<Rightarrow> patientData
     \<Rightarrow> attempt list \<times> httpResponse" where
  "genericModelRoute fmt net db param pd =
     (let model = toLowerCase param
      in if model \<notin> set validModels then ([], invalidModel)
         else (case handleModelPrediction net model pd of
                 (cs, r) \<Rightarrow> (cs, sendPredictionResponse fmt db r)))"

section \<open>Concrete networks and databases\<close>

definition netAllDown :: network where
  "netAllDown n u pd = Rejected Transport"

definition netAllTimeout :: network where
  "netAllTimeout n u pd = Rejected Timeout"

definition ckdPayload :: payload where
  "ckdPayload = \<lparr> prediction = Some ''CKD'', probability = Some 0.9, confidence = Some 90 \<rparr>"


definition netAllUp :: network where
  "netAllUp n u pd = Fulfilled (Some ckdPayload)"


text \<open>The best model is down, every other service answers.\<close>

definition netBestDown :: network where
  "netBestDown n u pd =
     (if u = Some ''https://xgboost-service-ddal.onrender.com/predict''
      then Rejected Transport else Fulfilled (Some ckdPayload))"

text \<open>A service that answers 200 with the JSON body \<open>null\<close>.\<close>

definition netNullBody :: network where
  "netNullBody n u pd = Fulfilled None"

definition dbUp :: database where
  "dbUp doc = Some ''id1''"

definition dbDown :: database where
  "dbDown doc = None"

section \<open>Properties of the local risk estimator\<close>

lemma highRisk_raw: "rawRiskScore highRiskRecord = 100"
  by (simp add: rawRiskScore_def highRiskRecord_def or_num_def)

lemma highRisk_capped: "cappedRiskScore highRiskRecord = 95"
  by (simp add: cappedRiskScore_def highRisk_raw)

lemma neutral_raw: "rawRiskScore neutralRecord = 0"
  by (simp add: rawRiskScore_def neutralRecord_def or_num_def)

lemma neutral_final:
  "m \<in> set validModels \<Longrightarrow> finalProbability neutralRecord m = 0.05"
  by (auto simp: validModels_def finalProbability_def mockProbability_def cappedRiskScore_def
      neutral_raw modelAdjustment_def modelAdjustments_def or_num_def)

text \<open>
  C7: for the record age=70, bp=150, sc=1.5, bu=50, bgr=130, sg=1.005, al=3, su=2 every
  rule fires, the accumulated raw score is 15+10+25+15+10+10+10+5 = 100, and it is capped
  to 95 before the offset of the model is added and the result is clamped to [0.05, 0.95]:
  for the five models the probability is 0.95 plus the offset, and then the clamped value.
\<close>

theorem C7_high_risk_raw_score_capped:
  "rawRiskScore highRiskRecord = 15 + 10 + 25 + 15 + 10 + 10 + 10 + 5
   \<and> rawRiskScore highRiskRecord = 100
   \<and> cappedRiskScore highRiskRecord = 95
   \<and> map (mockProbability highRiskRecord) validModels
       = [95 / 100 + 0.02, 95 / 100 + 0.01, 95 / 100 + 0.0, 95 / 100 + (- 0.01),
          95 / 100 + 0.015]
   \<and> map (finalProbability highRiskRecord) validModels = [0.95, 0.95, 0.95, 0.94, 0.95]"
proof -
  have prob: "map (mockProbability highRiskRecord) validModels
       = [95 / 100 + 0.02, 95 / 100 + 0.01, 95 / 100 + 0.0, 95 / 100 + (- 0.01),
          95 / 100 + 0.015]"
    by (simp add: validModels_def mockProbability_def highRisk_capped modelAdjustment_def
        modelAdjustments_def or_num_def)
  have fin: "map (finalProbability highRiskRecord) validModels = [0.95, 0.95, 0.95, 0.94, 0.95]"
    by (simp add: validModels_def finalProbability_def mockProbability_def highRisk_capped
        modelAdjustment_def modelAdjustments_def or_num_def)
  from highRisk_raw highRisk_capped prob fin show ?thesis by simp
qed

text \<open>
  C8: for the record with age=50, bp=120, sc=1.0, bu=30, bgr=100 and the other fields
  absent (so defaulted), the raw score is 0, and for each of the five models, that is for
  each of the offsets +0.02, +0.01, 0.0, -0.01 and +0.015, the clamped probability is 0.05,
  which is at most 0.5, and the label is "No CKD".
\<close>

theorem C8_neutral_record_negative:
  "rawRiskScore neutralRecord = 0
   \<and> map modelAdjustment validModels = [0.02, 0.01, 0.0, - 0.01, 0.015]
   \<and> map (finalProbability neutralRecord) validModels = [0.05, 0.05, 0.05, 0.05, 0.05]
   \<and> list_all (\<lambda>m. finalProbability neutralRecord m \<le> 0.5) validModels
   \<and> map (\<lambda>m. pr_prediction (generateMockPrediction neutralRecord m)) validModels
       = [''No CKD'', ''No CKD'', ''No CKD'', ''No CKD'', ''No CKD'']"
proof -
  have adj: "map modelAdjustment validModels = [0.02, 0.01, 0.0, - 0.01, 0.015]"
    by (simp add: validModels_def modelAdjustment_def modelAdjustments_def or_num_def)
  have fin: "map (finalProbability neutralRecord) validModels = [0.05, 0.05, 0.05, 0.05, 0.05]"
    by (simp add: validModels_def finalProbability_def mockProbability_def cappedRiskScore_def
        neutral_raw modelAdjustment_def modelAdjustments_def or_num_def)
  have le: "list_all (\<lambda>m. finalProbability neutralRecord m \<le> 0.5) validModels"
    by (simp add: list_all_iff neutral_final)
  have lab: "map (\<lambda>m. pr_prediction (generateMockPrediction neutralRecord m)) validModels
       = [''No CKD'', ''No CKD'', ''No CKD'', ''No CKD'', ''No CKD'']"
  proof -
    have "pr_prediction (generateMockPrediction neutralRecord m) = ''No CKD''"
      if "m \<in> set validModels" for m
      using that by (simp add: generateMockPrediction_def neutral_final)
    then show ?thesis by (simp add: validModels_def)
  qed
  from neutral_raw adj fin le lab show ?thesis by simp
qed

section \<open>Properties of the cascade of \<open>getBestModelPrediction\<close>\<close>

lemma usable_Rejected: "usable (Rejected f) = None"
  by (simp add: usable_def)

lemma cascade_all_fail:
  "(\<And>k u. usable (net k u pd) = None) \<Longrightarrow>
   cascade reg net pd n ms
     = (map (serviceAttempt reg) (filter (\<lambda>m. m \<noteq> bestModel reg) ms),
        Inl (Error ''All model services unavailable''))"
  by (induction ms arbitrary: n) simp_all

lemma cascade_models:
  "map a_model (fst (cascade reg net pd n ms))
     = take (length (fst (cascade reg net pd n ms))) (filter (\<lambda>m. m \<noteq> bestModel reg) ms)"
  by (induction ms arbitrary: n) (auto simp: serviceAttempt_def case_prod_beta split: option.splits)

lemma cascade_attempts:
  "c \<in> set (fst (cascade reg net pd n ms)) \<Longrightarrow> c = serviceAttempt reg (a_model c)"
  by (induction ms arbitrary: n) (auto simp: serviceAttempt_def case_prod_beta split: option.splits if_splits)

lemma cascade_earlier_failed:
  "Suc i < length (fst (cascade reg net pd n ms)) \<Longrightarrow>
   usable (net (n + i) (a_url (fst (cascade reg net pd n ms) ! i)) pd) = None"
proof (induction ms arbitrary: n i)
  case Nil
  then show ?case by simp
next
  case (Cons m ms)
  show ?case
  proof (cases "m = bestModel reg")
    case True
    with Cons show ?thesis by simp
  next
    case False
    note notbest = this
    show ?thesis
    proof (cases "usable (net n (a_url (serviceAttempt reg m)) pd)")
      case (Some d)
      with notbest Cons.prems show ?thesis by simp
    next
      case None
      obtain cs r where c: "cascade reg net pd (Suc n) ms = (cs, r)"
        by (cases "cascade reg net pd (Suc n) ms")
      have tr: "fst (cascade reg net pd n (m # ms)) = serviceAttempt reg m # cs"
        using notbest None c by simp
      show ?thesis
      proof (cases i)
        case 0
        then show ?thesis using tr None by simp
      next
        case (Suc k)
        have "Suc k < length (fst (cascade reg net pd (Suc n) ms))"
          using Cons.prems tr Suc c by simp
        from Cons.IH [OF this] show ?thesis
          using tr Suc c by simp
      qed
    qed
  qed
qed

lemma cascade_success:
  "snd (cascade reg net pd n ms) = Inr out \<Longrightarrow>
   fst (cascade reg net pd n ms) \<noteq> [] \<and>
   (\<exists>d. usable (net (n + length (fst (cascade reg net pd n ms)) - 1)
                 (a_url (last (fst (cascade reg net pd n ms)))) pd) = Some d
         \<and> out = outcomeOf reg (a_model (last (fst (cascade reg net pd n ms)))) d True)"
proof (induction ms arbitrary: n)
  case Nil
  then show ?case by simp
next
  case (Cons m ms)
  show ?case
  proof (cases "m = bestModel reg")
    case True
    with Cons show ?thesis by simp
  next
    case False
    note notbest = this
    show ?thesis
    proof (cases "usable (net n (a_url (serviceAttempt reg m)) pd)")
      case (Some d)
      with notbest Cons.prems show ?thesis by (auto simp: serviceAttempt_def)
    next
      case None
      obtain cs r where c: "cascade reg net pd (Suc n) ms = (cs, r)"
        by (cases "cascade reg net pd (Suc n) ms")
      have tr: "cascade reg net pd n (m # ms) = (serviceAttempt reg m # cs, r)"
        using notbest None c by simp
      have "snd (cascade reg net pd (Suc n) ms) = Inr out"
        using Cons.prems tr c by simp
      from Cons.IH [OF this] show ?thesis
        using tr c by auto
    qed
  qed
qed

lemma cascade_timeout:
  "c \<in> set (fst (cascade reg net pd n ms)) \<Longrightarrow> a_timeout c = None"
  using cascade_attempts [of c reg net pd n ms] by (metis attempt.select_convs(3) serviceAttempt_def)

lemma cascade_cong:
  "(\<And>k u. usable (net k u pd) = usable (net' k u pd)) \<Longrightarrow>
   cascade reg net pd n ms = cascade reg net' pd n ms"
  by (induction ms arbitrary: n) (auto split: option.splits)


lemma cascade_returns_success:
  "i < length (fst (cascade reg net pd n ms)) \<Longrightarrow>
   usable (net (n + i) (a_url (fst (cascade reg net pd n ms) ! i)) pd) = Some d \<Longrightarrow>
   Suc i = length (fst (cascade reg net pd n ms))
   \<and> snd (cascade reg net pd n ms)
       = Inr (outcomeOf reg (a_model (fst (cascade reg net pd n ms) ! i)) d True)"
proof (induction ms arbitrary: n i)
  case Nil
  then show ?case by simp
next
  case (Cons m ms)
  show ?case
  proof (cases "m = bestModel reg")
    case True
    with Cons show ?thesis by simp
  next
    case False
    note notbest = this
    show ?thesis
    proof (cases "usable (net n (a_url (serviceAttempt reg m)) pd)")
      case (Some d')
      with notbest Cons.prems show ?thesis by (simp add: serviceAttempt_def)
    next
      case None
      obtain cs r where c: "cascade reg net pd (Suc n) ms = (cs, r)"
        by (cases "cascade reg net pd (Suc n) ms")
      have tr: "cascade reg net pd n (m # ms) = (serviceAttempt reg m # cs, r)"
        using notbest None c by simp
      show ?thesis
      proof (cases i)
        case 0
        then show ?thesis using tr None Cons.prems by simp
      next
        case (Suc k)
        have k: "k < length (fst (cascade reg net pd (Suc n) ms))"
          using Cons.prems(1) tr Suc c by simp
        have u: "usable (net (Suc n + k) (a_url (fst (cascade reg net pd (Suc n) ms) ! k)) pd)
                   = Some d"
          using Cons.prems(2) tr Suc c by simp
        from Cons.IH [OF k u] c
        have len: "Suc k = length cs"
          and res: "r = Inr (outcomeOf reg (a_model (cs ! k)) d True)"
          by simp_all
        have nth: "fst (cascade reg net pd n (m # ms)) ! i = cs ! k"
          using tr Suc by simp
        have "Suc i = length (fst (cascade reg net pd n (m # ms)))"
          using tr Suc len by simp
        moreover have "snd (cascade reg net pd n (m # ms))
            = Inr (outcomeOf reg (a_model (fst (cascade reg net pd n (m # ms)) ! i)) d True)"
          unfolding nth using tr res by simp
        ultimately show ?thesis by blast
      qed
    qed
  qed
qed

lemma cascade_error:
  "snd (cascade reg net pd n ms) = Inl e \<Longrightarrow>
   e = Error ''All model services unavailable''
   \<and> fst (cascade reg net pd n ms)
       = map (serviceAttempt reg) (filter (\<lambda>m. m \<noteq> bestModel reg) ms)"
  by (induction ms arbitrary: n) (auto simp: case_prod_beta split: option.splits if_splits)

lemma best_unfold:
  "getBestModelPrediction reg net pd =
     (case usable (net 0 (a_url (serviceAttempt reg (bestModel reg))) pd) of
        Some d \<Rightarrow> ([serviceAttempt reg (bestModel reg)],
                   Inr (outcomeOf reg (bestModel reg) d False))
      | None \<Rightarrow> (serviceAttempt reg (bestModel reg)
                    # fst (cascade reg net pd 1 (fallbackModels reg)),
                  snd (cascade reg net pd 1 (fallbackModels reg))))"
  by (simp add: getBestModelPrediction_def Let_def case_prod_beta split: option.splits)

lemma best_earlier_failed:
  assumes "i < j" and "j < length (fst (getBestModelPrediction reg net pd))"
  shows "usable (net i (a_url (fst (getBestModelPrediction reg net pd) ! i)) pd) = None"
proof (cases "usable (net 0 (a_url (serviceAttempt reg (bestModel reg))) pd)")
  case (Some d)
  then show ?thesis using assms by (simp add: best_unfold)
next
  case None
  let ?cs = "fst (cascade reg net pd 1 (fallbackModels reg))"
  have tr: "fst (getBestModelPrediction reg net pd) = serviceAttempt reg (bestModel reg) # ?cs"
    using None by (simp add: best_unfold)
  show ?thesis
  proof (cases i)
    case 0
    then show ?thesis using None tr by simp
  next
    case (Suc k)
    have "Suc k < length ?cs" using assms tr Suc by simp
    from cascade_earlier_failed [OF this] show ?thesis using tr Suc by simp
  qed
qed

lemma best_success_is_last:
  assumes "snd (getBestModelPrediction reg net pd) = Inr out"
  shows "fst (getBestModelPrediction reg net pd) \<noteq> [] \<and>
     (\<exists>d. usable (net (length (fst (getBestModelPrediction reg net pd)) - 1)
                 (a_url (last (fst (getBestModelPrediction reg net pd)))) pd) = Some d
          \<and> out = outcomeOf reg (a_model (last (fst (getBestModelPrediction reg net pd)))) d
                   (1 < length (fst (getBestModelPrediction reg net pd))))"
proof (cases "usable (net 0 (a_url (serviceAttempt reg (bestModel reg))) pd)")
  case (Some d)
  then show ?thesis using assms by (auto simp: best_unfold serviceAttempt_def)
next
  case None
  let ?cs = "fst (cascade reg net pd 1 (fallbackModels reg))"
  have tr: "fst (getBestModelPrediction reg net pd) = serviceAttempt reg (bestModel reg) # ?cs"
    using None by (simp add: best_unfold)
  have "snd (cascade reg net pd 1 (fallbackModels reg)) = Inr out"
    using assms None by (simp add: best_unfold)
  from cascade_success [OF this] obtain d where
    ne: "?cs \<noteq> []"
    and d: "usable (net (1 + length ?cs - 1) (a_url (last ?cs)) pd) = Some d"
    and out: "out = outcomeOf reg (a_model (last ?cs)) d True"
    by blast
  have "1 < length (fst (getBestModelPrediction reg net pd))"
    using ne tr by (cases ?cs) simp_all
  then show ?thesis using ne d out tr by auto
qed

lemma best_models_in_rank_order:
  "map a_model (fst (getBestModelPrediction reg net pd))
     = take (length (fst (getBestModelPrediction reg net pd)))
         (bestModel reg # filter (\<lambda>m. m \<noteq> bestModel reg) (fallbackModels reg))"
proof (cases "usable (net 0 (a_url (serviceAttempt reg (bestModel reg))) pd)")
  case (Some d)
  then show ?thesis by (simp add: best_unfold serviceAttempt_def)
next
  case None
  then show ?thesis
    using cascade_models [of reg net pd 1 "fallbackModels reg"]
    by (simp add: best_unfold serviceAttempt_def)
qed

lemma best_returns_success:
  assumes "i < length (fst (getBestModelPrediction reg net pd))"
    and "usable (net i (a_url (fst (getBestModelPrediction reg net pd) ! i)) pd) = Some d"
  shows "Suc i = length (fst (getBestModelPrediction reg net pd))
       \<and> snd (getBestModelPrediction reg net pd)
           = Inr (outcomeOf reg (a_model (fst (getBestModelPrediction reg net pd) ! i)) d (0 < i))"
proof (cases "usable (net 0 (a_url (serviceAttempt reg (bestModel reg))) pd)")
  case (Some d')
  then show ?thesis using assms by (simp add: best_unfold serviceAttempt_def)
next
  case None
  let ?cs = "fst (cascade reg net pd 1 (fallbackModels reg))"
  have tr: "fst (getBestModelPrediction reg net pd) = serviceAttempt reg (bestModel reg) # ?cs"
    and r: "snd (getBestModelPrediction reg net pd) = snd (cascade reg net pd 1 (fallbackModels reg))"
    using None by (simp_all add: best_unfold)
  show ?thesis
  proof (cases i)
    case 0
    then show ?thesis using None tr assms by simp
  next
    case (Suc k)
    have k: "k < length ?cs" using assms(1) tr Suc by simp
    have u: "usable (net (1 + k) (a_url (?cs ! k)) pd) = Some d"
      using assms(2) tr Suc by simp
    from cascade_returns_success [OF k u]
    have len: "Suc k = length ?cs"
      and res: "snd (cascade reg net pd 1 (fallbackModels reg))
                  = Inr (outcomeOf reg (a_model (?cs ! k)) d True)"
      by simp_all
    have nth: "fst (getBestModelPrediction reg net pd) ! i = ?cs ! k"
      using tr Suc by simp
    have pos: "0 < i" using Suc by simp
    have "Suc i = length (fst (getBestModelPrediction reg net pd))"
      using tr Suc len by simp
    moreover have "snd (getBestModelPrediction reg net pd)
        = Inr (outcomeOf reg (a_model (fst (getBestModelPrediction reg net pd) ! i)) d (0 < i))"
      unfolding nth using r res pos by simp
    ultimately show ?thesis by blast
  qed
qed

lemma best_error:
  assumes "snd (getBestModelPrediction reg net pd) = Inl e"
  shows "e = Error ''All model services unavailable''
       \<and> map a_model (fst (getBestModelPrediction reg net pd))
           = bestModel reg # filter (\<lambda>m. m \<noteq> bestModel reg) (fallbackModels reg)"
proof (cases "usable (net 0 (a_url (serviceAttempt reg (bestModel reg))) pd)")
  case (Some d')
  then show ?thesis using assms by (simp add: best_unfold)
next
  case None
  have "snd (cascade reg net pd 1 (fallbackModels reg)) = Inl e"
    using assms None by (simp add: best_unfold)
  from cascade_error [OF this] show ?thesis
    using None by (simp add: best_unfold serviceAttempt_def comp_def)
qed

text \<open>
  C1, as the code has it: when every remote call of a request fails, for any reason,
  \<open>getBestModelPrediction\<close> has called the best model and then every other model of the
  performance table once, in descending order of score, and it raises the error
  "All model services unavailable". It returns no outcome and has no local estimate.
\<close>

theorem C1_all_remote_fail_raises:
  assumes "\<And>k u. usable (net k u pd) = None"
  shows "getBestModelPrediction reg net pd
           = (map (serviceAttempt reg)
                (bestModel reg # filter (\<lambda>m. m \<noteq> bestModel reg) (fallbackModels reg)),
              Inl (Error ''All model services unavailable''))"
  using assms by (simp add: best_unfold cascade_all_fail)

text \<open>
  With the tables of the module and every service down, the five models are tried and the
  call ends in the error, not in an outcome with \<open>fallback = true\<close>.
\<close>

theorem C1_counterexample:
  "map a_model (fst (getBestModelPrediction serviceRegistry netAllDown neutralRecord))
     = [''xgboost'', ''randomforest'', ''neuralnetwork'', ''logistic'', ''svm'']
   \<and> snd (getBestModelPrediction serviceRegistry netAllDown neutralRecord)
     = Inl (Error ''All model services unavailable'')"
  by (simp add: best_unfold usable_def netAllDown_def serviceRegistry_def
      fallbackModels_def serviceAttempt_def)

text \<open>
  The same with every call timing out.
\<close>

theorem C1_witness:
  "snd (getBestModelPrediction serviceRegistry netAllTimeout highRiskRecord)
     = Inl (Error ''All model services unavailable'')"
  using C1_all_remote_fail_raises [of netAllTimeout highRiskRecord serviceRegistry]
  by (simp add: usable_def netAllTimeout_def)

text \<open>
  C3: in the calls that \<open>getBestModelPrediction\<close> issues, every call that is followed by
  another one has failed, so nothing is called after a success; a call that gives a usable
  answer is the last call issued, and its outcome is what is returned, at once, with
  \<open>fallback\<close> set when it was not the first call; conversely a returned outcome comes from
  the last call issued, and the error is raised only after every model has been called; and
  the models are called in rank order: the best model, then the others by descending score.
\<close>

theorem C3_first_success_short_circuits:
  assumes "getBestModelPrediction reg net pd = (tr, r)"
  shows "(\<forall>i j. i < j \<and> j < length tr \<longrightarrow> usable (net i (a_url (tr ! i)) pd) = None)
       \<and> (\<forall>i d. i < length tr \<and> usable (net i (a_url (tr ! i)) pd) = Some d \<longrightarrow>
            Suc i = length tr \<and> r = Inr (outcomeOf reg (a_model (tr ! i)) d (0 < i)))
       \<and> (\<forall>out. r = Inr out \<longrightarrow>
            tr \<noteq> [] \<and>
            (\<exists>d. usable (net (length tr - 1) (a_url (last tr)) pd) = Some d
                 \<and> out = outcomeOf reg (a_model (last tr)) d (1 < length tr)))
       \<and> (\<forall>e. r = Inl e \<longrightarrow>
            e = Error ''All model services unavailable''
            \<and> map a_model tr
                = bestModel reg # filter (\<lambda>m. m \<noteq> bestModel reg) (fallbackModels reg))
       \<and> map a_model tr
           = take (length tr)
               (bestModel reg # filter (\<lambda>m. m \<noteq> bestModel reg) (fallbackModels reg))"
proof -
  have tr: "fst (getBestModelPrediction reg net pd) = tr"
    and r: "snd (getBestModelPrediction reg net pd) = r"
    using assms by simp_all
  have earlier: "usable (net i (a_url (tr ! i)) pd) = None" if "i < j" "j < length tr" for i j
    using best_earlier_failed [of i j reg net pd] that tr by simp
  have returned: "Suc i = length tr \<and> r = Inr (outcomeOf reg (a_model (tr ! i)) d (0 < i))"
    if "i < length tr" "usable (net i (a_url (tr ! i)) pd) = Some d" for i d
    using best_returns_success [of i reg net pd d] that tr r by simp
  have last: "tr \<noteq> [] \<and>
            (\<exists>d. usable (net (length tr - 1) (a_url (last tr)) pd) = Some d
                 \<and> out = outcomeOf reg (a_model (last tr)) d (1 < length tr))"
    if "r = Inr out" for out
    using best_success_is_last [of reg net pd out] that tr r by simp
  have err: "e = Error ''All model services unavailable''
            \<and> map a_model tr
                = bestModel reg # filter (\<lambda>m. m \<noteq> bestModel reg) (fallbackModels reg)"
    if "r = Inl e" for e
    using best_error [of reg net pd e] that tr r by simp
  have order: "map a_model tr
           = take (length tr)
               (bestModel reg # filter (\<lambda>m. m \<noteq> bestModel reg) (fallbackModels reg))"
    using best_models_in_rank_order [of reg net pd] tr by simp
  from earlier returned last err order show ?thesis by blast
qed

text \<open>
  With the best model down and the others up: two calls, the first one failed, the second
  one answered and its outcome is returned, and there is no third call.
\<close>

lemma bestDown_value:
  "getBestModelPrediction serviceRegistry netBestDown neutralRecord
     = ([serviceAttempt serviceRegistry ''xgboost'', serviceAttempt serviceRegistry ''randomforest''],
        Inr (outcomeOf serviceRegistry ''randomforest'' ckdPayload True))"
  by (simp add: best_unfold usable_def netBestDown_def serviceRegistry_def
      fallbackModels_def serviceAttempt_def)

theorem C3_witness:
  "usable (netBestDown 0
      (a_url (serviceAttempt serviceRegistry ''xgboost'')) neutralRecord) = None
   \<and> usable (netBestDown 1
      (a_url (serviceAttempt serviceRegistry ''randomforest'')) neutralRecord) = Some ckdPayload
   \<and> map a_model (fst (getBestModelPrediction serviceRegistry netBestDown neutralRecord))
       = [''xgboost'', ''randomforest'']
   \<and> snd (getBestModelPrediction serviceRegistry netBestDown neutralRecord)
       = Inr (outcomeOf serviceRegistry ''randomforest'' ckdPayload True)"
proof -
  let ?tr = "[serviceAttempt serviceRegistry ''xgboost'',
              serviceAttempt serviceRegistry ''randomforest'']"
  let ?r = "Inr (outcomeOf serviceRegistry ''randomforest'' ckdPayload True)
              :: js_error + modelOutcome"
  note w = C3_first_success_short_circuits [OF bestDown_value]
  from w have "i < j \<Longrightarrow> j < length ?tr \<Longrightarrow>
        usable (netBestDown i (a_url (?tr ! i)) neutralRecord) = None" for i j
    by blast
  from this [of 0 1]
  have first: "usable (netBestDown 0
      (a_url (serviceAttempt serviceRegistry ''xgboost'')) neutralRecord) = None"
    by simp
  have second: "usable (netBestDown 1
      (a_url (serviceAttempt serviceRegistry ''randomforest'')) neutralRecord) = Some ckdPayload"
    by (simp add: usable_def netBestDown_def serviceAttempt_def serviceRegistry_def)
  from w have "i < length ?tr \<Longrightarrow>
        usable (netBestDown i (a_url (?tr ! i)) neutralRecord) = Some d \<Longrightarrow>
        Suc i = length ?tr
        \<and> ?r = Inr (outcomeOf serviceRegistry (a_model (?tr ! i)) d (0 < i))" for i d
    by blast
  from this [of 1 ckdPayload] second
  have "snd (getBestModelPrediction serviceRegistry netBestDown neutralRecord) = ?r"
    by (simp add: bestDown_value)
  with first second show ?thesis
    by (simp add: bestDown_value serviceAttempt_def)
qed

section \<open>Time-outs and failed calls\<close>

lemma handle_timeout:
  "c \<in> set (fst (handleModelPrediction net model pd)) \<Longrightarrow> a_timeout c = Some 10000"
  by (auto simp: handleModelPrediction_def Let_def split: option.splits)

lemma handle_one_call: "length (fst (handleModelPrediction net model pd)) \<le> 1"
  by (simp add: handleModelPrediction_def Let_def split: option.splits)

lemma best_timeout:
  "c \<in> set (fst (getBestModelPrediction reg net pd)) \<Longrightarrow> a_timeout c = None"
  by (auto simp: best_unfold serviceAttempt_def dest: cascade_timeout split: option.splits)

lemma best_cong:
  assumes "\<And>k u. usable (net k u pd) = usable (net' k u pd)"
  shows "getBestModelPrediction reg net pd = getBestModelPrediction reg net' pd"
proof -
  have "cascade reg net pd 1 (fallbackModels reg) = cascade reg net' pd 1 (fallbackModels reg)"
    by (rule cascade_cong) (rule assms)
  then show ?thesis by (simp only: best_unfold assms)
qed

lemma handle_cong:
  assumes "\<And>k u. usable (net k u pd) = usable (net' k u pd)"
  shows "handleModelPrediction net model pd = handleModelPrediction net' model pd"
  by (simp only: handleModelPrediction_def assms)

lemma distinct_fallbackModels:
  "distinct (map fst (modelPerformance reg)) \<Longrightarrow> distinct (fallbackModels reg)"
  by (simp add: fallbackModels_def distinct_map)

lemma best_no_retry:
  assumes "distinct (map fst (modelPerformance reg))"
  shows "distinct (map a_model (fst (getBestModelPrediction reg net pd)))"
proof -
  have "distinct (bestModel reg # filter (\<lambda>m. m \<noteq> bestModel reg) (fallbackModels reg))"
    using distinct_fallbackModels [OF assms] by simp
  then have "distinct (take (length (fst (getBestModelPrediction reg net pd)))
      (bestModel reg # filter (\<lambda>m. m \<noteq> bestModel reg) (fallbackModels reg)))"
    by (rule distinct_take)
  then show ?thesis by (simp only: best_models_in_rank_order)
qed

text \<open>
  C4, as the code has it: the one remote call of \<open>handleModelPrediction\<close> is made with
  \<open>timeout: 10000\<close>, while the calls of \<open>getBestModelPrediction\<close> are made without a
  time-out option. In both, only whether a call gave a usable answer matters, so a call that
  times out is handled as a call that fails for any other reason; and no model is called
  twice in one request.
\<close>

theorem C4_timeout_only_in_handler:
  "(\<forall>c \<in> set (fst (handleModelPrediction net model pd)). a_timeout c = Some 10000)
   \<and> length (fst (handleModelPrediction net model pd)) \<le> 1
   \<and> (\<forall>c \<in> set (fst (getBestModelPrediction reg net pd)). a_timeout c = None)
   \<and> ((\<forall>k u. usable (net k u pd) = usable (net' k u pd)) \<longrightarrow>
        getBestModelPrediction reg net pd = getBestModelPrediction reg net' pd
        \<and> handleModelPrediction net model pd = handleModelPrediction net' model pd)
   \<and> (distinct (map fst (modelPerformance reg)) \<longrightarrow>
        distinct (map a_model (fst (getBestModelPrediction reg net pd))))"
  using handle_timeout [of _ net model pd] handle_one_call [of net model pd]
    best_timeout [of _ reg net pd] best_cong [of net pd net' reg]
    handle_cong [of net pd net' model] best_no_retry [of reg net pd]
  by blast

text \<open>
  The best model answers: \<open>getBestModelPrediction\<close> has issued one call, and it carries
  no time-out.
\<close>

theorem C4_counterexample:
  "map a_timeout (fst (getBestModelPrediction serviceRegistry netAllUp neutralRecord)) = [None]"
  by (simp add: best_unfold usable_def netAllUp_def serviceAttempt_def)

text \<open>
  Every call times out, compared with every call failing at transport level.
\<close>

theorem C4_witness:
  "map a_timeout (fst (handleModelPrediction netAllTimeout ''svm'' neutralRecord))
     = [Some 10000]
   \<and> map a_timeout (fst (getBestModelPrediction serviceRegistry netAllTimeout neutralRecord))
     = [None, None, None, None, None]
   \<and> getBestModelPrediction serviceRegistry netAllTimeout neutralRecord
     = getBestModelPrediction serviceRegistry netAllDown neutralRecord
   \<and> handleModelPrediction netAllTimeout ''svm'' neutralRecord
     = handleModelPrediction netAllDown ''svm'' neutralRecord
   \<and> distinct (map a_model
        (fst (getBestModelPrediction serviceRegistry netAllTimeout neutralRecord)))"
proof -
  have same: "usable (netAllTimeout k u neutralRecord) = usable (netAllDown k u neutralRecord)"
    for k u
    by (simp add: usable_def netAllTimeout_def netAllDown_def)
  have keys: "distinct (map fst (modelPerformance serviceRegistry))"
    by (simp add: serviceRegistry_def)
  have t1: "map a_timeout (fst (handleModelPrediction netAllTimeout ''svm'' neutralRecord))
     = [Some 10000]"
    by (simp add: handleModelPrediction_def truthyLookup_def modelServiceMap_def usable_def
        netAllTimeout_def)
  have t2: "map a_timeout
      (fst (getBestModelPrediction serviceRegistry netAllTimeout neutralRecord))
     = [None, None, None, None, None]"
    by (simp add: best_unfold usable_def netAllTimeout_def serviceRegistry_def
        fallbackModels_def serviceAttempt_def)
  note w = C4_timeout_only_in_handler
    [of netAllTimeout "''svm''" neutralRecord serviceRegistry netAllDown]
  from w same have eqs:
    "getBestModelPrediction serviceRegistry netAllTimeout neutralRecord
       = getBestModelPrediction serviceRegistry netAllDown neutralRecord
     \<and> handleModelPrediction netAllTimeout ''svm'' neutralRecord
       = handleModelPrediction netAllDown ''svm'' neutralRecord"
    by blast
  from w keys have "distinct (map a_model
        (fst (getBestModelPrediction serviceRegistry netAllTimeout neutralRecord)))"
    by blast
  with t1 t2 eqs show ?thesis by blast
qed

section \<open>Properties of the comparison report\<close>

lemma or_num_zero: "or_num (Some v) 0 = v"
  by (simp add: or_num_def)

lemma fulfilledValues_compareOne:
  "fulfilledValues (map (compareOne reg net pd) es)
     = map (\<lambda>(i, name, url).
          case usable (net i (Some url) pd) of
            Some d \<Rightarrow> Success (capitalize name) (or_str (prediction d) ''Unknown'')
                        (or_num (probability d) 0) (or_num (map_of (modelPerformance reg) name) 0)
          | None \<Rightarrow> Failed (capitalize name) ''Service down''
                      (or_num (map_of (modelPerformance reg) name) 0)) es"
  by (induction es) (auto simp: compareOne_def split: option.splits)

lemma map_insort_key:
  "map f (insort_key (\<lambda>a. k (f a)) x xs) = insort_key k (f x) (map f xs)"
  by (induction xs) simp_all

lemma map_sort_key:
  "map f (sort_key (\<lambda>a. k (f a)) xs) = sort_key k (map f xs)"
  by (induction xs) (simp_all add: map_insort_key)

lemma slot_of_entry:
  "map (\<lambda>e. (ce_model e, ce_accuracy e))
     (map (\<lambda>(i, name, url).
          case usable (net i (Some url) pd) of
            Some d \<Rightarrow> Success (capitalize name) (or_str (prediction d) ''Unknown'')
                        (or_num (probability d) 0) (or_num (map_of (modelPerformance reg) name) 0)
          | None \<Rightarrow> Failed (capitalize name) ''Service down''
                      (or_num (map_of (modelPerformance reg) name) 0)) es)
   = map (\<lambda>(name, url). (capitalize name, rankKey reg name)) (map snd es)"
  by (induction es) (auto simp: rankKey_def split: option.splits)

text \<open>
  C2: the report of \<open>compareAllModels\<close> has one entry for each model of \<open>ML_MODELS\<close>,
  whatever the calls do, and it has exactly as many failed entries as there are failed calls:
  a failed call is an error slot, it is not dropped.
\<close>

theorem C2_report_length:
  "length (compareAllModels reg net pd) = length (ML_MODELS reg)
   \<and> length (filter failedEntry (compareAllModels reg net pd))
       = length (filter (\<lambda>(i, name, url). usable (net i (Some url) pd) = None)
           (enumerate 0 (ML_MODELS reg)))"
proof -
  have len: "length (compareAllModels reg net pd) = length (ML_MODELS reg)"
    by (simp add: compareAllModels_def fulfilledValues_compareOne)
  have "length (filter failedEntry (compareAllModels reg net pd))
       = length (filter (\<lambda>(i, name, url). usable (net i (Some url) pd) = None)
           (enumerate 0 (ML_MODELS reg)))"
    unfolding compareAllModels_def Let_def fulfilledValues_compareOne filter_sort
    by (simp add: filter_map comp_def case_prod_beta split: option.splits cong: filter_cong) 
  with len show ?thesis by simp
qed

lemma compareAllModels_sorted:
  "sorted_wrt (\<lambda>a b. ce_accuracy b \<le> ce_accuracy a) (compareAllModels reg net pd)"
proof -
  have "sorted (map (\<lambda>e. - ce_accuracy e) (compareAllModels reg net pd))"
    by (simp add: compareAllModels_def or_num_zero)
  then show ?thesis by (simp add: sorted_map)
qed

lemma compareAllModels_ranks:
  "map (\<lambda>e. (ce_model e, ce_accuracy e)) (compareAllModels reg net pd)
     = map (\<lambda>(name, url). (capitalize name, rankKey reg name))
         (sort_key (\<lambda>(name, url). - rankKey reg name) (ML_MODELS reg))"
proof -
  let ?p = "\<lambda>e. (ce_model e, ce_accuracy e)"
  let ?q = "\<lambda>(name, url). (capitalize name, rankKey reg name)"
  let ?k = "\<lambda>(m :: string, a :: real). - a"
  let ?slot = "\<lambda>(i, name, url).
          case usable (net i (Some url) pd) of
            Some d \<Rightarrow> Success (capitalize name) (or_str (prediction d) ''Unknown'')
                        (or_num (probability d) 0) (or_num (map_of (modelPerformance reg) name) 0)
          | None \<Rightarrow> Failed (capitalize name) ''Service down''
                      (or_num (map_of (modelPerformance reg) name) 0)"
  have "map ?p (compareAllModels reg net pd)
        = map ?p (sort_key (\<lambda>e. ?k (?p e)) (map ?slot (enumerate 0 (ML_MODELS reg))))"
    by (simp add: compareAllModels_def fulfilledValues_compareOne or_num_zero)
  also have "\<dots> = sort_key ?k (map ?p (map ?slot (enumerate 0 (ML_MODELS reg))))"
    by (rule map_sort_key)
  also have "map ?p (map ?slot (enumerate 0 (ML_MODELS reg)))
        = map ?q (map snd (enumerate 0 (ML_MODELS reg)))"
    by (rule slot_of_entry)
  also have "map snd (enumerate 0 (ML_MODELS reg)) = ML_MODELS reg"
    by (rule map_snd_enumerate)
  also have "sort_key ?k (map ?q (ML_MODELS reg))
        = map ?q (sort_key (\<lambda>a. ?k (?q a)) (ML_MODELS reg))"
    by (rule map_sort_key [symmetric])
  also have "(\<lambda>a. ?k (?q a)) = (\<lambda>(name, url). - rankKey reg name)"
    by (simp add: fun_eq_iff)
  finally show ?thesis .
qed

text \<open>
  C9: the report is in non-increasing order of accuracy over all its entries, hence also
  over its successful entries; and the model and accuracy at each position are those of the
  registry sorted by score, whatever the calls do, so a failed entry stands at the rank of
  its model.
\<close>

theorem C9_report_sorted_by_accuracy:
  "sorted_wrt (\<lambda>a b. ce_accuracy b \<le> ce_accuracy a) (compareAllModels reg net pd)
   \<and> sorted_wrt (\<lambda>a b. ce_accuracy b \<le> ce_accuracy a)
        (filter successEntry (compareAllModels reg net pd))
   \<and> map (\<lambda>e. (ce_model e, ce_accuracy e)) (compareAllModels reg net pd)
       = map (\<lambda>(name, url). (capitalize name, rankKey reg name))
           (sort_key (\<lambda>(name, url). - rankKey reg name) (ML_MODELS reg))"
  using compareAllModels_sorted [of reg net pd] compareAllModels_ranks [of reg net pd]
  by (simp add: sorted_wrt_filter)

text \<open>
  With every service down the report is the five error slots, in rank order.
\<close>

lemma compare_all_down:
  "compareAllModels serviceRegistry netAllDown neutralRecord
     = [Failed ''Xgboost'' ''Service down'' 0.99, Failed ''Randomforest'' ''Service down'' 0.98,
        Failed ''Neuralnetwork'' ''Service down'' 0.96, Failed ''Logistic'' ''Service down'' 0.95,
        Failed ''Svm'' ''Service down'' 0.94]"
  by (simp add: compareAllModels_def compareOne_def usable_def netAllDown_def
      serviceRegistry_def or_num_def capitalize_def toUpperCase_def enumerate_eq_zip upt_rec)

section \<open>Properties of the routes\<close>

lemma invalidModel_fields:
  "status invalidModel = 400 \<and> success invalidModel = False
   \<and> message invalidModel
       = Some ''Invalid model. Choose from: xgboost, randomforest, svm, logistic, neuralnetwork''"
  by (simp add: invalidModel_def emptyResponse_def validModels_def)

text \<open>
  C6: for a model identifier that is not one of the valid models, the route
  \<open>POST /:model/predict\<close> answers with status 400 and a message that lists the valid
  identifiers, and it has issued no remote call.
\<close>

theorem C6_unknown_model_rejected:
  assumes "model \<notin> set validModels"
  shows "modelPredictRoute net db model pd = ([], invalidModel)
       \<and> status invalidModel = 400
       \<and> success invalidModel = False
       \<and> message invalidModel
           = Some ''Invalid model. Choose from: xgboost, randomforest, svm, logistic, neuralnetwork''"
  using assms invalidModel_fields by (simp add: modelPredictRoute_def)

text \<open>
  The identifier \<open>catboost\<close>.
\<close>

theorem C6_witness:
  "modelPredictRoute netAllUp dbUp ''catboost'' neutralRecord = ([], invalidModel)
   \<and> status invalidModel = 400"
  using C6_unknown_model_rejected [of "''catboost''" netAllUp dbUp neutralRecord]
  by (simp add: validModels_def)

text \<open>
  The generic route of the helper-based file does the same, on the lower-cased identifier.
\<close>

lemma genericModelRoute_invalid:
  "toLowerCase param \<notin> set validModels \<Longrightarrow>
   genericModelRoute fmt net db param pd = ([], invalidModel)"
  by (simp add: genericModelRoute_def)

text \<open>
  \<open>sendPredictionResponse\<close> answers 200 with the prediction whether or not the write
  succeeds, and notes a failed write.
\<close>

lemma sendPredictionResponse_never_fails:
  "status (sendPredictionResponse fmt db r) = 200
   \<and> success (sendPredictionResponse fmt db r)
   \<and> risk_score (sendPredictionResponse fmt db r) = Some (pr_probability (fst r) * 100)"
  by (cases r) (simp add: sendPredictionResponse_def emptyResponse_def Let_def split: option.splits)

lemma sendPredictionResponse_db_down:
  "resp_note (sendPredictionResponse fmt dbDown r) = Some ''Prediction saved locally only''"
  by (cases r) (simp add: sendPredictionResponse_def emptyResponse_def Let_def dbDown_def)

text \<open>
  C5 (a failed persistence write must not fail the response of a computed prediction) does
  not hold on the route of \<open>server.js\<close>: the xgboost service answers with a prediction,
  \<open>record.save()\<close> rejects, and the response is the 500 of the handler's \<open>catch\<close>, without
  the prediction.
\<close>

theorem C5_save_failure_fails_request:
  "usable (netAllUp 0 (truthyLookup modelServiceMap ''xgboost'') highRiskRecord) = Some ckdPayload
   \<and> snd (modelPredictRoute netAllUp dbDown ''xgboost'' highRiskRecord)
       = predictionFailed SaveError
   \<and> status (predictionFailed SaveError) = 500
   \<and> success (predictionFailed SaveError) = False
   \<and> result (predictionFailed SaveError) = None"
  by (simp add: modelPredictRoute_def validModels_def truthyLookup_def modelServiceMap_def
      netAllUp_def usable_def saveAndRespond_def dbDown_def predictionFailed_def emptyResponse_def)


text \<open>
  So does a service that answers with the body \<open>null\<close>, although the write would succeed.
\<close>

lemma modelPredictRoute_null_body:
  "snd (modelPredictRoute netNullBody dbUp ''svm'' neutralRecord) = predictionFailed TypeError"
  by (simp add: modelPredictRoute_def validModels_def truthyLookup_def modelServiceMap_def
      netNullBody_def)




end
